theory Spec2Isabelle
  imports Main "HOL-Library.Sublist" "HOL-Library.AList" "HOL-Library.Char_ord"
    "HOL-Library.List_Lexorder"
begin

section \<open>Python values used by both servers\<close>

text \<open>
  A Python \<open>str\<close> is modelled as a \<open>string\<close>, one \<open>char\<close> per code point (the model
  covers the code points below 256), so that \<open>length\<close> is Python's \<open>len\<close>. The value every
  tool hands to \<open>json.dumps\<close> is modelled as a \<open>json\<close> tree; a \<open>dict\<close> keeps its
  insertion order, as Python's does, and is an association list.
\<close>

datatype json =
    JNull
  | JBool bool
  | JInt int
  | JStr string
  | JList "json list"
  | JObj "(string \<times> json) list"

text \<open>\<open>d[k]\<close> read through \<open>d.get(k)\<close>: the value stored under a key of a dict.\<close>

fun field :: "json \<Rightarrow> string \<Rightarrow> json option" where
  "field (JObj kvs) k = map_of kvs k"
| "field _ k = None"

fun keys :: "json \<Rightarrow> string list" where
  "keys (JObj kvs) = map fst kvs"
| "keys _ = []"

text \<open>Exceptions carry what the handlers read: \<open>e.stderr\<close> or \<open>str(e)\<close>.\<close>

datatype exn =
    CalledProcessError string
  | JSONDecodeError string
  | OtherError string

fun str_exn :: "exn \<Rightarrow> string" where
  "str_exn (CalledProcessError m) = m"
| "str_exn (JSONDecodeError m) = m"
| "str_exn (OtherError m) = m"

subsection \<open>String operations\<close>

definition newline :: char where
  "newline = CHR 0x0A"

definition tab :: char where
  "tab = CHR 0x09"

text \<open>\<open>s.split(d)\<close> for a one-character separator: never the empty list.\<close>

fun split_on :: "char \<Rightarrow> string \<Rightarrow> string list" where
  "split_on d [] = [[]]"
| "split_on d (c # cs) =
     (let r = split_on d cs in if c = d then [] # r else (c # hd r) # tl r)"

text \<open>\<open>sep.join(parts)\<close>.\<close>

fun join_with :: "string \<Rightarrow> string list \<Rightarrow> string" where
  "join_with sep [] = []"
| "join_with sep [x] = x"
| "join_with sep (x # y # zs) = x @ sep @ join_with sep (y # zs)"

text \<open>\<open>str.isspace\<close> on one code point below 256, and \<open>s.strip()\<close>.\<close>

definition isspace :: "char \<Rightarrow> bool" where
  "isspace c = (let n = (of_char c :: nat) in
     (9 \<le> n \<and> n \<le> 13) \<or> (28 \<le> n \<and> n \<le> 32) \<or> n = 133 \<or> n = 160)"

definition strip :: "string \<Rightarrow> string" where
  "strip s = rev (dropWhile isspace (rev (dropWhile isspace s)))"

text \<open>\<open>s.lower()\<close>: the capital letters of ASCII and of Latin-1 move down by 32.\<close>

definition lower_char :: "char \<Rightarrow> char" where
  "lower_char c = (let n = (of_char c :: nat) in
     if (65 \<le> n \<and> n \<le> 90) \<or> (192 \<le> n \<and> n \<le> 222 \<and> n \<noteq> 215)
     then char_of (n + 32) else c)"

definition lower :: "string \<Rightarrow> string" where
  "lower s = map lower_char s"

text \<open>\<open>xs[:n]\<close> for any integer \<open>n\<close>: a negative \<open>n\<close> counts from the end.\<close>

definition slice_to :: "int \<Rightarrow> 'a list \<Rightarrow> 'a list" where
  "slice_to n xs = (if 0 \<le> n then take (nat n) xs else take (length xs - nat (- n)) xs)"

text \<open>\<open>str(n)\<close> for an integer: decimal digits, a minus sign when negative.\<close>

fun str_nat :: "nat \<Rightarrow> string" where
  "str_nat n = (if n < 10 then [char_of (48 + n)]
                else str_nat (n div 10) @ [char_of (48 + n mod 10)])"

definition str_int :: "int \<Rightarrow> string" where
  "str_int i = (if i < 0 then CHR ''-'' # str_nat (nat (- i)) else str_nat (nat i))"

section \<open>The source-control subprocess\<close>

text \<open>
  \<open>subprocess.run(args, capture_output=True, text=True, cwd=...)\<close> either raises (the
  executable or the directory is missing) or returns the completed process.
\<close>

record proc =
  returncode :: int
  stdout :: string
  stderr :: string

section \<open>Module 1: the basic server\<close>

text \<open>
  What the basic \<open>analyze_file_changes\<close> reads from outside: the roots the session
  reports (or the exception of \<open>get_context\<close>/\<open>list_roots\<close>), and the subprocess, called
  with its argument list and working directory.
\<close>

record git_env =
  list_roots :: "exn + string list"
  run_in :: "string list \<Rightarrow> string \<Rightarrow> exn + proc"

definition max_diff_chars :: nat where
  "max_diff_chars = 20000"

text \<open>The loop over \<open>result_files.stdout.strip().split('\n')\<close> (lines 48 to 58).\<close>

fun parse_files :: "string list \<Rightarrow> json list \<Rightarrow> json list" where
  "parse_files [] files_changed = files_changed"
| "parse_files (line # rest) files_changed =
     (if line \<noteq> [] then
        (let parts = split_on tab line in
         if length parts \<ge> 2 then
           parse_files rest (files_changed @
             [JObj [(''status'', JStr (parts ! 0)), (''filename'', JStr (parts ! 1))]])
         else parse_files rest files_changed)
      else parse_files rest files_changed)"

text \<open>The loop over \<open>diff_lines\<close> with its \<open>break\<close> (lines 81 to 88).\<close>

fun take_lines :: "string list \<Rightarrow> string list \<Rightarrow> nat \<Rightarrow> string list" where
  "take_lines [] truncated_lines char_count = truncated_lines"
| "take_lines (line # rest) truncated_lines char_count =
     (if char_count + length line + 1 > max_diff_chars then truncated_lines
      else take_lines rest (truncated_lines @ [line]) (char_count + length line + 1))"

text \<open>The character-budget policy (lines 75 to 95), writing into \<open>result\<close>.\<close>

definition truncate_diff :: "string \<Rightarrow> (string \<times> json) list \<Rightarrow> (string \<times> json) list" where
  "truncate_diff diff_content result =
     (if length diff_content > max_diff_chars then
        (let diff_lines = split_on newline diff_content;
             truncated_lines = take_lines diff_lines [] 0
         in AList.update ''original_diff_size'' (JInt (int (length diff_content)))
              (AList.update ''diff_truncated'' (JBool True)
                (AList.update ''diff'' (JStr (join_with [newline] truncated_lines)) result)))
      else
        AList.update ''diff_truncated'' (JBool False)
          (AList.update ''diff'' (JStr diff_content) result))"

text \<open>The handler of \<open>except Exception\<close> at the end of \<open>analyze_file_changes\<close>.\<close>

definition exception_occurred :: "exn \<Rightarrow> json" where
  "exception_occurred e =
     JObj [(''error'', JStr (''Exception occurred: '' @ str_exn e)),
           (''files_changed'', JList []),
           (''diff'', JStr [])]"

definition analyze_file_changes :: "git_env \<Rightarrow> string \<Rightarrow> bool \<Rightarrow> json" where
  "analyze_file_changes env base_branch include_diff =
     (case list_roots env of
        Inl e \<Rightarrow> exception_occurred e
      | Inr roots \<Rightarrow>
          (let working_dir = (if roots \<noteq> [] then hd roots else ''.'') in
           case run_in env [''git'', ''diff'', ''--name-status'', base_branch] working_dir of
             Inl e \<Rightarrow> exception_occurred e
           | Inr result_files \<Rightarrow>
               if returncode result_files \<noteq> 0 then
                 JObj [(''error'', JStr (''Git command failed: '' @ stderr result_files)),
                       (''files_changed'', JList []),
                       (''diff'', JStr [])]
               else
                 (let files_changed =
                        parse_files (split_on newline (strip (stdout result_files))) [];
                      result = [(''files_changed'', JList files_changed),
                                (''total_files'', JInt (int (length files_changed)))]
                  in if include_diff \<and> files_changed \<noteq> [] then
                       (case run_in env [''git'', ''diff'', base_branch] working_dir of
                          Inl e \<Rightarrow> exception_occurred e
                        | Inr result_diff \<Rightarrow>
                            if returncode result_diff = 0 then
                              JObj (truncate_diff (stdout result_diff) result)
                            else
                              JObj (AList.update ''diff_error'' (JStr (stderr result_diff))
                                     (AList.update ''diff'' (JStr []) result)))
                     else JObj (AList.update ''diff'' (JStr []) result))))"

subsection \<open>Template storage and \<open>get_pr_templates\<close>\<close>

text \<open>
  What the template tools read from outside: the printed path of \<open>TEMPLATES_DIR\<close>,
  whether it exists, the file names \<open>TEMPLATES_DIR.glob("*.md")\<close> yields, in the order
  the file system enumerates them (or the exception it raises), whether a file of the
  directory exists, and what opening and reading it gives.
\<close>

record storage =
  templates_dir :: string
  dir_exists :: bool
  glob_md :: "exn + string list"
  path_exists :: "string \<Rightarrow> bool"
  read_file :: "string \<Rightarrow> exn + string"

text \<open>\<open>name.rfind('.')\<close>, and \<open>Path.stem\<close> of a file name.\<close>

definition rfind_dot :: "string \<Rightarrow> nat option" where
  "rfind_dot name =
     (if CHR ''.'' \<in> set name
      then Some (length name - 1 - length (takeWhile (\<lambda>c. c \<noteq> CHR ''.'') (rev name)))
      else None)"

definition stem :: "string \<Rightarrow> string" where
  "stem name =
     (case rfind_dot name of
        Some i \<Rightarrow> if 0 < i \<and> i + 1 < length name then take i name else name
      | None \<Rightarrow> name)"

text \<open>The loop over the files of the directory (lines 126 to 148).\<close>

fun read_templates :: "storage \<Rightarrow> string list \<Rightarrow> json list \<Rightarrow> json list" where
  "read_templates st [] templates = templates"
| "read_templates st (template_file # rest) templates =
     (case read_file st template_file of
        Inr content \<Rightarrow>
          read_templates st rest (templates @
            [JObj [(''filename'', JStr template_file),
                   (''name'', JStr (stem template_file)),
                   (''type'', JStr (stem template_file)),
                   (''content'', JStr content)]])
      | Inl e \<Rightarrow>
          read_templates st rest (templates @
            [JObj [(''filename'', JStr template_file),
                   (''name'', JStr (stem template_file)),
                   (''type'', JStr (stem template_file)),
                   (''error'', JStr (''Failed to read template: '' @ str_exn e))]]))"

text \<open>The sort key \<open>lambda x: x.get('name', '')\<close>.\<close>

definition name_key :: "json \<Rightarrow> string" where
  "name_key x = (case field x ''name'' of Some (JStr s) \<Rightarrow> s | _ \<Rightarrow> [])"

definition get_pr_templates :: "storage \<Rightarrow> json" where
  "get_pr_templates st =
     (if \<not> dir_exists st then
        JObj [(''error'', JStr (''Templates directory not found: '' @ templates_dir st)),
              (''templates'', JList [])]
      else
        (case glob_md st of
           Inl e \<Rightarrow>
             JObj [(''error'', JStr (''Failed to get PR templates: '' @ str_exn e)),
                   (''templates'', JList [])]
         | Inr files \<Rightarrow> JList (sort_key name_key (read_templates st files []))))"

subsection \<open>\<open>suggest_template\<close>\<close>

definition template_mappings :: "(string \<times> string) list" where
  "template_mappings =
     [(''bug'', ''bug.md''),
      (''bugfix'', ''bug.md''),
      (''fix'', ''bug.md''),
      (''feature'', ''feature.md''),
      (''feat'', ''feature.md''),
      (''enhancement'', ''feature.md''),
      (''docs'', ''docs.md''),
      (''documentation'', ''docs.md''),
      (''doc'', ''docs.md''),
      (''refactor'', ''refactor.md''),
      (''refactoring'', ''refactor.md''),
      (''test'', ''test.md''),
      (''tests'', ''test.md''),
      (''testing'', ''test.md''),
      (''performance'', ''performance.md''),
      (''perf'', ''performance.md''),
      (''optimization'', ''performance.md''),
      (''security'', ''security.md''),
      (''sec'', ''security.md'')]"

text \<open>\<open>sub in s\<close> on strings: \<open>sub\<close> occurs in \<open>s\<close> as a contiguous run.\<close>

fun is_in :: "string \<Rightarrow> string \<Rightarrow> bool" where
  "is_in sub [] = (sub = [])"
| "is_in sub (c # cs) = (prefix sub (c # cs) \<or> is_in sub cs)"

text \<open>
  The loop over \<open>template_mappings.items()\<close> with its \<open>break\<close> (lines 202 to 205): the
  file of the first key that matches, if any.
\<close>

fun partial_match :: "(string \<times> string) list \<Rightarrow> string \<Rightarrow> string option" where
  "partial_match [] normalized_type = None"
| "partial_match ((key, template_file) # rest) normalized_type =
     (if is_in key normalized_type \<or> is_in normalized_type key then Some template_file
      else partial_match rest normalized_type)"

text \<open>\<open>not x\<close> for a value that is \<open>None\<close> or a string.\<close>

definition falsy :: "string option \<Rightarrow> bool" where
  "falsy x = (x = None \<or> x = Some [])"

text \<open>
  Lines 194 to 212 of \<open>suggest_template\<close>: the pair
  \<open>(suggested_template_file, fallback_used)\<close>.
\<close>

definition select_template :: "string \<Rightarrow> string \<times> bool" where
  "select_template change_type =
     (let normalized_type = strip (lower change_type);
          exact = map_of template_mappings normalized_type;
          suggested =
            (if falsy exact then
               (case partial_match template_mappings normalized_type of
                  Some template_file \<Rightarrow> Some template_file
                | None \<Rightarrow> exact)
             else exact)
      in case suggested of
           Some template_file \<Rightarrow>
             if template_file = [] then (''feature.md'', True) else (template_file, False)
         | None \<Rightarrow> (''feature.md'', True))"

definition suggest_template :: "storage \<Rightarrow> string \<Rightarrow> string \<Rightarrow> json" where
  "suggest_template st changes_summary change_type =
     (let suggested_template_file = fst (select_template change_type);
          fallback_used = snd (select_template change_type)
      in if path_exists st suggested_template_file then
           (case read_file st suggested_template_file of
              Inr template_content \<Rightarrow>
                (let result =
                       [(''recommended_template'', JStr suggested_template_file),
                        (''template_type'', JStr (stem suggested_template_file)),
                        (''template_content'', JStr template_content),
                        (''changes_summary'', JStr changes_summary),
                        (''detected_change_type'', JStr change_type),
                        (''fallback_used'', JBool fallback_used)]
                 in if fallback_used then
                      JObj (AList.update ''note''
                        (JStr (''No specific template found for '' @ [CHR 0x27] @ change_type
                               @ [CHR 0x27] @ '', defaulting to feature template'')) result)
                    else JObj result)
            | Inl e \<Rightarrow>
                JObj [(''error'', JStr (''Failed to read template file ''
                         @ suggested_template_file @ '': '' @ str_exn e)),
                      (''recommended_template'', JStr suggested_template_file),
                      (''template_type'', JStr (stem suggested_template_file))])
         else
           JObj [(''error'', JStr (''Template file not found: '' @ suggested_template_file)),
                 (''available_templates'', JList (map (\<lambda>kv. JStr (snd kv)) template_mappings)),
                 (''detected_change_type'', JStr change_type)])"

section \<open>Module 2: the server with GitHub Actions tools\<close>

text \<open>
  The functions of the second server that share a name with one of the first carry the
  prefix \<open>actions_\<close>. An exception that no handler of the tool catches is the result
  \<open>Inl\<close>: it reaches the dispatcher.
\<close>

definition DEFAULT_TEMPLATES :: "(string \<times> string) list" where
  "DEFAULT_TEMPLATES =
     [(''bug.md'', ''Bug Fix''),
      (''feature.md'', ''Feature''),
      (''docs.md'', ''Documentation''),
      (''refactor.md'', ''Refactor''),
      (''test.md'', ''Test''),
      (''performance.md'', ''Performance''),
      (''security.md'', ''Security'')]"

definition TYPE_MAPPING :: "(string \<times> string) list" where
  "TYPE_MAPPING =
     [(''bug'', ''bug.md''),
      (''fix'', ''bug.md''),
      (''feature'', ''feature.md''),
      (''enhancement'', ''feature.md''),
      (''docs'', ''docs.md''),
      (''documentation'', ''docs.md''),
      (''refactor'', ''refactor.md''),
      (''cleanup'', ''refactor.md''),
      (''test'', ''test.md''),
      (''testing'', ''test.md''),
      (''performance'', ''performance.md''),
      (''optimization'', ''performance.md''),
      (''security'', ''security.md'')]"

subsection \<open>\<open>analyze_file_changes\<close> with the line limit\<close>

text \<open>The line-count policy (lines 93 to 102): \<open>(diff_content, truncated, diff_lines)\<close>.\<close>

definition limit_diff_lines :: "string \<Rightarrow> int \<Rightarrow> string \<times> bool \<times> string list" where
  "limit_diff_lines out max_diff_lines =
     (let diff_lines = split_on newline out in
      if int (length diff_lines) > max_diff_lines then
        (join_with [newline] (slice_to max_diff_lines diff_lines)
           @ [newline, newline] @ ''... Output truncated. Showing '' @ str_int max_diff_lines
           @ '' of '' @ str_nat (length diff_lines) @ '' lines ...''
           @ [newline] @ ''... Use max_diff_lines parameter to see more ...'',
         True, diff_lines)
      else (out, False, diff_lines))"

text \<open>The two handlers at the end of the tool (lines 123 to 126).\<close>

fun git_error :: "exn \<Rightarrow> json" where
  "git_error (CalledProcessError err) = JObj [(''error'', JStr (''Git error: '' @ err))]"
| "git_error e = JObj [(''error'', JStr (str_exn e))]"

text \<open>
  The subprocess of this server runs in the process's own directory. Only the first
  call passes \<open>check=True\<close>, which raises \<open>CalledProcessError\<close> on a non-zero exit.
\<close>

definition actions_analyze_file_changes ::
  "(string list \<Rightarrow> exn + proc) \<Rightarrow> string \<Rightarrow> bool \<Rightarrow> int \<Rightarrow> json" where
  "actions_analyze_file_changes run base_branch include_diff max_diff_lines =
     (case run [''git'', ''diff'', ''--name-status'', base_branch @ ''...HEAD''] of
        Inl e \<Rightarrow> git_error e
      | Inr files_result \<Rightarrow>
          if returncode files_result \<noteq> 0 then
            git_error (CalledProcessError (stderr files_result))
          else
            (case run [''git'', ''diff'', ''--stat'', base_branch @ ''...HEAD''] of
               Inl e \<Rightarrow> git_error e
             | Inr stat_result \<Rightarrow>
                 (case (if include_diff then
                          (case run [''git'', ''diff'', base_branch @ ''...HEAD''] of
                             Inl e \<Rightarrow> Inl e
                           | Inr diff_result \<Rightarrow>
                               Inr (limit_diff_lines (stdout diff_result) max_diff_lines))
                        else Inr ([], False, [])) of
                    Inl e \<Rightarrow> git_error e
                  | Inr (diff_content, truncated, diff_lines) \<Rightarrow>
                      (case run [''git'', ''log'', ''--oneline'', base_branch @ ''..HEAD''] of
                         Inl e \<Rightarrow> git_error e
                       | Inr commits_result \<Rightarrow>
                           JObj [(''base_branch'', JStr base_branch),
                                 (''files_changed'', JStr (stdout files_result)),
                                 (''statistics'', JStr (stdout stat_result)),
                                 (''commits'', JStr (stdout commits_result)),
                                 (''diff'', JStr (if include_diff then diff_content
                                    else ''Diff not included (set include_diff=true to see full diff)'')),
                                 (''truncated'', JBool truncated),
                                 (''total_diff_lines'',
                                    JInt (if include_diff then int (length diff_lines) else 0))]))))"

subsection \<open>\<open>get_pr_templates\<close> and \<open>suggest_template\<close> over the static table\<close>

text \<open>
  The list comprehension over \<open>DEFAULT_TEMPLATES.items()\<close>; \<open>read_text\<close> of a file of
  the template directory may raise, and nothing here catches it.
\<close>

fun actions_read_templates ::
  "(string \<Rightarrow> exn + string) \<Rightarrow> (string \<times> string) list \<Rightarrow> exn + json list" where
  "actions_read_templates read_text [] = Inr []"
| "actions_read_templates read_text ((filename, template_type) # rest) =
     (case read_text filename of
        Inl e \<Rightarrow> Inl e
      | Inr content \<Rightarrow>
          (case actions_read_templates read_text rest of
             Inl e \<Rightarrow> Inl e
           | Inr templates \<Rightarrow>
               Inr (JObj [(''filename'', JStr filename),
                          (''type'', JStr template_type),
                          (''content'', JStr content)] # templates)))"

definition actions_get_pr_templates :: "(string \<Rightarrow> exn + string) \<Rightarrow> exn + json" where
  "actions_get_pr_templates read_text =
     (case actions_read_templates read_text DEFAULT_TEMPLATES of
        Inl e \<Rightarrow> Inl e
      | Inr templates \<Rightarrow> Inr (JList templates))"

text \<open>
  \<open>suggest_template\<close> parses what \<open>get_pr_templates\<close> serialised, which gives the same
  tree back. \<open>templates[0]\<close> and \<open>selected_template["content"]\<close> raise on an empty list
  and on a missing key.
\<close>

definition actions_suggest_template ::
  "(string \<Rightarrow> exn + string) \<Rightarrow> string \<Rightarrow> string \<Rightarrow> exn + json" where
  "actions_suggest_template read_text changes_summary change_type =
     (case actions_get_pr_templates read_text of
        Inl e \<Rightarrow> Inl e
      | Inr templates_response \<Rightarrow>
          (let templates = (case templates_response of JList ts \<Rightarrow> ts | _ \<Rightarrow> []);
               template_file = (case map_of TYPE_MAPPING (lower change_type) of
                                  Some f \<Rightarrow> f | None \<Rightarrow> ''feature.md'')
           in case templates of
                [] \<Rightarrow> Inl (OtherError ''list index out of range'')
              | first # _ \<Rightarrow>
                  (let selected_template =
                         (case find (\<lambda>t. field t ''filename'' = Some (JStr template_file))
                                 templates of
                            Some t \<Rightarrow> t | None \<Rightarrow> first)
                   in case field selected_template ''content'' of
                        None \<Rightarrow> Inl (OtherError ''content'')
                      | Some content \<Rightarrow>
                          Inr (JObj
                            [(''recommended_template'', selected_template),
                             (''reasoning'', JStr (''Based on your analysis: '' @ [CHR 0x27]
                                @ changes_summary @ [CHR 0x27] @ '', this appears to be a ''
                                @ change_type @ '' change.'')),
                             (''template_content'', content),
                             (''usage_hint'', JStr ''Claude can help you fill out this template based on the specific changes in your PR.'')]))))"

subsection \<open>\<open>get_recent_actions_events\<close>\<close>

text \<open>
  The events file: whether it exists, and what \<open>json.load\<close> of it gives or raises.
\<close>

record events_file =
  events_exists :: bool
  events_load :: "exn + json"

definition get_recent_actions_events :: "events_file \<Rightarrow> int \<Rightarrow> json" where
  "get_recent_actions_events ef limit =
     (if \<not> events_exists ef then
        JObj [(''events'', JList []), (''message'', JStr ''No events file found'')]
      else
        (case events_load ef of
           Inl (JSONDecodeError m) \<Rightarrow>
             JObj [(''error'', JStr (''Invalid JSON in events file: '' @ m))]
         | Inl e \<Rightarrow> JObj [(''error'', JStr (''Error reading events: '' @ str_exn e))]
         | Inr events \<Rightarrow>
             (let recent_events = (case events of JList es \<Rightarrow> slice_to limit es | _ \<Rightarrow> [])
              in JObj [(''events'', JList recent_events),
                       (''total_events'',
                          JInt (case events of JList es \<Rightarrow> int (length es) | _ \<Rightarrow> 0)),
                       (''showing'', JInt (int (length recent_events)))])))"

section \<open>Sample environments\<close>

text \<open>A repository with two changed files whose full diff is the text \<open>d\<close>.\<close>

definition sample_run :: "string \<Rightarrow> string list \<Rightarrow> string \<Rightarrow> exn + proc" where
  "sample_run d args cwd =
     (if args = [''git'', ''diff'', ''--name-status'', ''main''] then
        Inr \<lparr>returncode = 0,
             stdout = ''M'' @ [tab] @ ''a.py'' @ [newline] @ ''A'' @ [tab] @ ''b.py'' @ [newline],
             stderr = []\<rparr>
      else Inr \<lparr>returncode = 0, stdout = d, stderr = []\<rparr>)"

definition sample_env :: "string \<Rightarrow> git_env" where
  "sample_env d = \<lparr>list_roots = Inr [], run_in = sample_run d\<rparr>"

text \<open>A subprocess of the second server that prints \<open>d\<close> whatever it is asked.\<close>

definition sample_run_head :: "string \<Rightarrow> string list \<Rightarrow> exn + proc" where
  "sample_run_head d args = Inr \<lparr>returncode = 0, stdout = d, stderr = []\<rparr>"

text \<open>A template directory in which every file can be read.\<close>

definition sample_read_text :: "string \<Rightarrow> exn + string" where
  "sample_read_text filename = Inr (''# '' @ filename)"

definition sample_storage :: storage where
  "sample_storage =
     \<lparr>templates_dir = ''/srv/templates'',
      dir_exists = True,
      glob_md = Inr [''feature.md'', ''bug.md'', ''docs.md''],
      path_exists = (\<lambda>name. True),
      read_file = sample_read_text\<rparr>"

text \<open>A repository whose working tree has no difference to any base.\<close>

definition sample_clean_env :: git_env where
  "sample_clean_env =
     \<lparr>list_roots = Inr [''/repo''],
      run_in = (\<lambda>args cwd. Inr \<lparr>returncode = 0, stdout = [], stderr = []\<rparr>)\<rparr>"

text \<open>A subprocess of the second server whose full diff fails while every other call succeeds.\<close>

definition failing_diff_run :: "string list \<Rightarrow> exn + proc" where
  "failing_diff_run args =
     (if args = [''git'', ''diff'', ''main...HEAD''] then
        Inr \<lparr>returncode = 128, stdout = [], stderr = ''fatal: bad revision''\<rparr>
      else Inr \<lparr>returncode = 0, stdout = ''ok'', stderr = []\<rparr>)"

text \<open>A template directory that is missing: every read raises.\<close>

definition missing_read_text :: "string \<Rightarrow> exn + string" where
  "missing_read_text filename = Inl (OtherError ''[Errno 2] No such file or directory'')"

text \<open>An events file holding a list of three events.\<close>

definition sample_events :: events_file where
  "sample_events =
     \<lparr>events_exists = True, events_load = Inr (JList [JInt 1, JInt 2, JInt 3])\<rparr>"

section \<open>Lines and their concatenation\<close>

lemma split_on_not_Nil: "split_on d s \<noteq> []"
  by (induction s) (simp_all add: Let_def)

lemma join_with_Cons:
  "ls \<noteq> [] \<Longrightarrow> join_with sep (l # ls) = l @ sep @ join_with sep ls"
  by (cases ls) simp_all

lemma join_split_on: "join_with [d] (split_on d s) = s"
proof (induction s)
  case Nil
  show ?case by simp
next
  case (Cons c cs)
  obtain l ls where r: "split_on d cs = l # ls"
    using split_on_not_Nil [of d cs] by (cases "split_on d cs") auto
  show ?case
  proof (cases "c = d")
    case True
    with Cons r show ?thesis by (simp add: Let_def)
  next
    case False
    with Cons r show ?thesis by (cases ls) (simp_all add: Let_def)
  qed
qed

section \<open>The character budget of the basic server\<close>

lemma take_lines_cost:
  "cc = sum_list (map (\<lambda>l. Suc (length l)) acc) \<Longrightarrow> cc \<le> max_diff_chars \<Longrightarrow>
   sum_list (map (\<lambda>l. Suc (length l)) (take_lines ls acc cc)) \<le> max_diff_chars"
proof (induction ls arbitrary: acc cc)
  case Nil
  then show ?case by simp
next
  case (Cons l ls)
  show ?case
  proof (cases "cc + length l + 1 > max_diff_chars")
    case True
    with Cons.prems show ?thesis by simp
  next
    case False
    have "sum_list (map (\<lambda>l. Suc (length l))
            (take_lines ls (acc @ [l]) (cc + length l + 1))) \<le> max_diff_chars"
      using Cons.prems False by (intro Cons.IH) simp_all
    with False show ?thesis by simp
  qed
qed

lemma length_join_le:
  "length (join_with [d] ls) \<le> sum_list (map (\<lambda>l. Suc (length l)) ls)"
  by (induction "[d]" ls rule: join_with.induct) auto

lemma take_lines_prefix: "\<exists>k. take_lines ls acc cc = acc @ take k ls"
proof (induction ls arbitrary: acc cc)
  case Nil
  show ?case by simp
next
  case (Cons l ls)
  show ?case
  proof (cases "cc + length l + 1 > max_diff_chars")
    case True
    then have "take_lines (l # ls) acc cc = acc @ take 0 (l # ls)" by simp
    then show ?thesis by blast
  next
    case False
    from Cons [of "acc @ [l]" "cc + length l + 1"] obtain k
      where "take_lines ls (acc @ [l]) (cc + length l + 1) = (acc @ [l]) @ take k ls" by blast
    with False have "take_lines (l # ls) acc cc = acc @ take (Suc k) (l # ls)" by simp
    then show ?thesis by blast
  qed
qed

lemma truncated_length:
  "length (join_with [newline] (take_lines ls [] 0)) \<le> max_diff_chars"
  using take_lines_cost [where acc = "[]" and cc = 0 and ls = ls]
    length_join_le [where d = newline and ls = "take_lines ls [] 0"]
  by simp

text \<open>
  C2. When both subprocess calls of the basic \<open>analyze_file_changes\<close> succeed and files
  have changed: a diff longer than 20000 characters comes back no longer than 20000
  characters, with \<open>diff_truncated\<close> true and \<open>original_diff_size\<close> the length of the
  whole diff; a diff of at most 20000 characters comes back unchanged, with
  \<open>diff_truncated\<close> false.
\<close>

theorem truncation_budget:
  assumes "list_roots env = Inr roots"
    and "run_in env [''git'', ''diff'', ''--name-status'', base]
           (if roots \<noteq> [] then hd roots else ''.'') = Inr rf"
    and "returncode rf = 0"
    and "parse_files (split_on newline (strip (stdout rf))) [] \<noteq> []"
    and "run_in env [''git'', ''diff'', base]
           (if roots \<noteq> [] then hd roots else ''.'') = Inr rd"
    and "returncode rd = 0"
  shows "if length (stdout rd) > 20000
         then (\<exists>s. field (analyze_file_changes env base True) ''diff'' = Some (JStr s)
                 \<and> length s \<le> 20000)
              \<and> field (analyze_file_changes env base True) ''diff_truncated''
                  = Some (JBool True)
              \<and> field (analyze_file_changes env base True) ''original_diff_size''
                  = Some (JInt (int (length (stdout rd))))
         else field (analyze_file_changes env base True) ''diff'' = Some (JStr (stdout rd))
              \<and> field (analyze_file_changes env base True) ''diff_truncated''
                  = Some (JBool False)"
proof -
  have r: "analyze_file_changes env base True =
        JObj (truncate_diff (stdout rd)
          [(''files_changed'', JList (parse_files (split_on newline (strip (stdout rf))) [])),
           (''total_files'',
              JInt (int (length (parse_files (split_on newline (strip (stdout rf))) []))))])"
    using assms by (simp add: analyze_file_changes_def Let_def)
  show ?thesis
    using truncated_length [of "split_on newline (stdout rd)"]
    by (simp add: r truncate_diff_def Let_def update_conv' max_diff_chars_def)
qed

theorem truncation_budget_witness:
  "field (analyze_file_changes (sample_env (replicate 30000 CHR ''x'')) ''main'' True)
     ''diff_truncated'' = Some (JBool True)
   \<and> field (analyze_file_changes (sample_env (replicate 30000 CHR ''x'')) ''main'' True)
     ''original_diff_size'' = Some (JInt 30000)"
proof -
  let ?env = "sample_env (replicate 30000 CHR ''x'')"
  let ?rf = "\<lparr>returncode = 0,
             stdout = ''M'' @ [tab] @ ''a.py'' @ [newline] @ ''A'' @ [tab] @ ''b.py'' @ [newline],
             stderr = []\<rparr>"
  let ?rd = "\<lparr>returncode = 0, stdout = replicate 30000 CHR ''x'', stderr = []\<rparr>"
  have h1: "list_roots ?env = Inr []"
    by (simp add: sample_env_def)
  have h2: "run_in ?env [''git'', ''diff'', ''--name-status'', ''main'']
              (if [] \<noteq> ([] :: string list) then hd [] else ''.'') = Inr ?rf"
    by (simp add: sample_env_def sample_run_def)
  have h3: "returncode ?rf = 0"
    by simp
  have h4: "parse_files (split_on newline (strip (stdout ?rf))) [] \<noteq> []"
    by (simp add: strip_def isspace_def newline_def tab_def Let_def)
  have h5: "run_in ?env [''git'', ''diff'', ''main'']
              (if [] \<noteq> ([] :: string list) then hd [] else ''.'') = Inr ?rd"
    by (simp add: sample_env_def sample_run_def)
  have h6: "returncode ?rd = 0"
    by simp
  show ?thesis
    using truncation_budget [OF h1 h2 h3 h4 h5 h6] by simp
qed

section \<open>Both truncation policies keep whole lines\<close>

lemma take_lines_is_prefix: "prefix (take_lines ls [] 0) ls"
  using take_lines_prefix [of ls "[]" 0] by (auto simp: take_is_prefix)

lemma slice_to_is_prefix: "prefix (slice_to n xs) xs"
  by (simp add: slice_to_def take_is_prefix)

text \<open>
  C3. Both policies return whole lines of the input, a prefix of its list of lines,
  joined by newlines. The basic server reports \<open>diff_truncated\<close> and, when it
  truncated, \<open>original_diff_size\<close>, the length of the input. The second server, for
  every limit \<open>n\<close>, appends to the kept lines a marker that names the limit and the total
  number of lines when it truncated, and reports \<open>truncated\<close> and \<open>total_diff_lines\<close>.
\<close>

theorem whole_lines:
  assumes "list_roots env = Inr roots"
    and "run_in env [''git'', ''diff'', ''--name-status'', base]
           (if roots \<noteq> [] then hd roots else ''.'') = Inr rf"
    and "returncode rf = 0"
    and "parse_files (split_on newline (strip (stdout rf))) [] \<noteq> []"
    and "run_in env [''git'', ''diff'', base]
           (if roots \<noteq> [] then hd roots else ''.'') = Inr rd"
    and "returncode rd = 0"
    and "run [''git'', ''diff'', ''--name-status'', base @ ''...HEAD''] = Inr fr"
    and "returncode fr = 0"
    and "run [''git'', ''diff'', ''--stat'', base @ ''...HEAD''] = Inr sr"
    and "run [''git'', ''diff'', base @ ''...HEAD''] = Inr dr"
    and "run [''git'', ''log'', ''--oneline'', base @ ''..HEAD''] = Inr cr"
  shows "(\<exists>ls. prefix ls (split_on newline (stdout rd))
            \<and> field (analyze_file_changes env base True) ''diff''
                = Some (JStr (join_with [newline] ls)))
       \<and> field (analyze_file_changes env base True) ''diff_truncated''
           = Some (JBool (length (stdout rd) > 20000))
       \<and> (length (stdout rd) > 20000 \<longrightarrow>
            field (analyze_file_changes env base True) ''original_diff_size''
              = Some (JInt (int (length (stdout rd)))))
       \<and> (\<exists>ls. prefix ls (split_on newline (stdout dr))
            \<and> field (actions_analyze_file_changes run base True n) ''diff''
                = Some (JStr (join_with [newline] ls @
                    (if int (length (split_on newline (stdout dr))) > n then
                       [newline, newline] @ ''... Output truncated. Showing '' @ str_int n
                       @ '' of '' @ str_nat (length (split_on newline (stdout dr)))
                       @ '' lines ...'' @ [newline]
                       @ ''... Use max_diff_lines parameter to see more ...''
                     else []))))
       \<and> field (actions_analyze_file_changes run base True n) ''truncated''
           = Some (JBool (int (length (split_on newline (stdout dr))) > n))
       \<and> field (actions_analyze_file_changes run base True n) ''total_diff_lines''
           = Some (JInt (int (length (split_on newline (stdout dr)))))"
proof -
  let ?d = "stdout rd" and ?o = "stdout dr"
  have r: "analyze_file_changes env base True =
        JObj (truncate_diff ?d
          [(''files_changed'', JList (parse_files (split_on newline (strip (stdout rf))) [])),
           (''total_files'',
              JInt (int (length (parse_files (split_on newline (strip (stdout rf))) []))))])"
    using assms(1-6) by (simp add: analyze_file_changes_def Let_def)
  have b1: "\<exists>ls. prefix ls (split_on newline ?d)
            \<and> field (analyze_file_changes env base True) ''diff''
                = Some (JStr (join_with [newline] ls))"
  proof (cases "length ?d > max_diff_chars")
    case True
    then have "field (analyze_file_changes env base True) ''diff''
        = Some (JStr (join_with [newline] (take_lines (split_on newline ?d) [] 0)))"
      by (simp add: r truncate_diff_def Let_def update_conv')
    then show ?thesis using take_lines_is_prefix by blast
  next
    case False
    then have "field (analyze_file_changes env base True) ''diff''
        = Some (JStr (join_with [newline] (split_on newline ?d)))"
      by (simp add: r truncate_diff_def Let_def update_conv' join_split_on)
    then show ?thesis by blast
  qed
  have b2: "field (analyze_file_changes env base True) ''diff_truncated''
           = Some (JBool (length ?d > 20000))"
    by (simp add: r truncate_diff_def Let_def update_conv' max_diff_chars_def)
  have b3: "length ?d > 20000 \<longrightarrow>
            field (analyze_file_changes env base True) ''original_diff_size''
              = Some (JInt (int (length ?d)))"
    by (simp add: r truncate_diff_def Let_def update_conv' max_diff_chars_def)
  have a: "actions_analyze_file_changes run base True n =
     (case limit_diff_lines ?o n of (diff_content, truncated, diff_lines) \<Rightarrow>
        JObj [(''base_branch'', JStr base),
              (''files_changed'', JStr (stdout fr)),
              (''statistics'', JStr (stdout sr)),
              (''commits'', JStr (stdout cr)),
              (''diff'', JStr diff_content),
              (''truncated'', JBool truncated),
              (''total_diff_lines'', JInt (int (length diff_lines)))])"
    using assms(7-11) by (simp add: actions_analyze_file_changes_def split: prod.splits)
  have e1: "\<exists>ls. prefix ls (split_on newline ?o)
            \<and> field (actions_analyze_file_changes run base True n) ''diff''
                = Some (JStr (join_with [newline] ls @
                    (if int (length (split_on newline ?o)) > n then
                       [newline, newline] @ ''... Output truncated. Showing '' @ str_int n
                       @ '' of '' @ str_nat (length (split_on newline ?o))
                       @ '' lines ...'' @ [newline]
                       @ ''... Use max_diff_lines parameter to see more ...''
                     else [])))"
  proof (cases "int (length (split_on newline ?o)) > n")
    case True
    then have "field (actions_analyze_file_changes run base True n) ''diff''
        = Some (JStr (join_with [newline] (slice_to n (split_on newline ?o)) @
                       [newline, newline] @ ''... Output truncated. Showing '' @ str_int n
                       @ '' of '' @ str_nat (length (split_on newline ?o))
                       @ '' lines ...'' @ [newline]
                       @ ''... Use max_diff_lines parameter to see more ...''))"
      by (simp add: a limit_diff_lines_def Let_def)
    with True show ?thesis using slice_to_is_prefix [of n "split_on newline ?o"]
      by (intro exI [of _ "slice_to n (split_on newline ?o)"]) simp
  next
    case False
    then have "field (actions_analyze_file_changes run base True n) ''diff''
        = Some (JStr (join_with [newline] (split_on newline ?o)))"
      by (simp add: a limit_diff_lines_def Let_def join_split_on)
    with False show ?thesis
      by (intro exI [of _ "split_on newline ?o"]) simp
  qed
  have e2: "field (actions_analyze_file_changes run base True n) ''truncated''
           = Some (JBool (int (length (split_on newline ?o)) > n))"
    by (simp add: a limit_diff_lines_def Let_def)
  have e3: "field (actions_analyze_file_changes run base True n) ''total_diff_lines''
           = Some (JInt (int (length (split_on newline ?o))))"
    by (simp add: a limit_diff_lines_def Let_def)
  from b1 b2 b3 e1 e2 e3 show ?thesis by blast
qed

theorem whole_lines_witness:
  "field (analyze_file_changes (sample_env (replicate 30000 CHR ''x'')) ''main'' True)
     ''original_diff_size'' = Some (JInt 30000)
   \<and> field (actions_analyze_file_changes
        (sample_run_head (''a'' @ [newline] @ ''b'' @ [newline] @ ''c'')) ''main'' True 2)
        ''total_diff_lines'' = Some (JInt 3)
   \<and> field (actions_analyze_file_changes
        (sample_run_head (''a'' @ [newline] @ ''b'' @ [newline] @ ''c'')) ''main'' True 2)
        ''truncated'' = Some (JBool True)"
proof -
  let ?env = "sample_env (replicate 30000 CHR ''x'')"
  let ?rf = "\<lparr>returncode = 0,
             stdout = ''M'' @ [tab] @ ''a.py'' @ [newline] @ ''A'' @ [tab] @ ''b.py'' @ [newline],
             stderr = []\<rparr>"
  let ?rd = "\<lparr>returncode = 0, stdout = replicate 30000 CHR ''x'', stderr = []\<rparr>"
  let ?o = "''a'' @ [newline] @ ''b'' @ [newline] @ ''c''"
  let ?run = "sample_run_head ?o"
  let ?p = "\<lparr>returncode = 0, stdout = ?o, stderr = []\<rparr>"
  have h1: "list_roots ?env = Inr []"
    by (simp add: sample_env_def)
  have h2: "run_in ?env [''git'', ''diff'', ''--name-status'', ''main'']
              (if [] \<noteq> ([] :: string list) then hd [] else ''.'') = Inr ?rf"
    by (simp add: sample_env_def sample_run_def)
  have h3: "returncode ?rf = 0"
    by simp
  have h4: "parse_files (split_on newline (strip (stdout ?rf))) [] \<noteq> []"
    by (simp add: strip_def isspace_def newline_def tab_def Let_def)
  have h5: "run_in ?env [''git'', ''diff'', ''main'']
              (if [] \<noteq> ([] :: string list) then hd [] else ''.'') = Inr ?rd"
    by (simp add: sample_env_def sample_run_def)
  have h6: "returncode ?rd = 0"
    by simp
  have g1: "?run [''git'', ''diff'', ''--name-status'', ''main'' @ ''...HEAD''] = Inr ?p"
    by (simp add: sample_run_head_def)
  have g2: "returncode ?p = 0"
    by simp
  have g3: "?run [''git'', ''diff'', ''--stat'', ''main'' @ ''...HEAD''] = Inr ?p"
    by (simp add: sample_run_head_def)
  have g4: "?run [''git'', ''diff'', ''main'' @ ''...HEAD''] = Inr ?p"
    by (simp add: sample_run_head_def)
  have g5: "?run [''git'', ''log'', ''--oneline'', ''main'' @ ''..HEAD''] = Inr ?p"
    by (simp add: sample_run_head_def)
  have len: "length (split_on newline ?o) = 3"
    by (simp add: newline_def Let_def)
  show ?thesis
    using whole_lines [OF h1 h2 h3 h4 h5 h6 g1 g2 g3 g4 g5, of 2] len by simp
qed

section \<open>Resolving a change type to a template\<close>

lemma select_bug:
  "select_template ''bugfix'' = (''bug.md'', False)"
  "select_template ''fix'' = (''bug.md'', False)"
  "select_template ''BUG'' = (''bug.md'', False)"
  by code_simp+

lemma actions_read_templates_Inr:
  "actions_read_templates rt tbl = Inr ts \<Longrightarrow>
   ts = map (\<lambda>(f, ty). JObj [(''filename'', JStr f), (''type'', JStr ty),
                              (''content'', JStr (projr (rt f)))]) tbl"
  by (induction tbl arbitrary: ts) (auto split: sum.splits)

lemma lookup_types:
  "map_of TYPE_MAPPING (lower ''fix'') = Some ''bug.md''"
  "map_of TYPE_MAPPING (lower ''BUG'') = Some ''bug.md''"
  "map_of TYPE_MAPPING (lower ''bugfix'') = None"
  by code_simp+

lemma actions_get_pr_templates_Inr:
  assumes "actions_get_pr_templates rt = Inr ts"
  shows "ts = JList (map (\<lambda>(f, ty). JObj [(''filename'', JStr f), (''type'', JStr ty),
                              (''content'', JStr (projr (rt f)))]) DEFAULT_TEMPLATES)"
  using assms actions_read_templates_Inr [of rt DEFAULT_TEMPLATES]
  by (auto simp: actions_get_pr_templates_def split: sum.splits)

lemma actions_suggest_fix:
  assumes "actions_get_pr_templates rt = Inr ts"
    and "map_of TYPE_MAPPING (lower ct) = Some ''bug.md''"
  shows "\<exists>r t. actions_suggest_template rt s ct = Inr r
           \<and> field r ''recommended_template'' = Some t
           \<and> field t ''filename'' = Some (JStr ''bug.md'')
           \<and> ''fallback_used'' \<notin> set (keys r)"
  using assms(2) unfolding actions_suggest_template_def assms(1)
    actions_get_pr_templates_Inr [OF assms(1)]
  by (simp add: DEFAULT_TEMPLATES_def)

lemma actions_suggest_default:
  assumes "actions_get_pr_templates rt = Inr ts"
    and "map_of TYPE_MAPPING (lower ct) = None"
  shows "\<exists>r t. actions_suggest_template rt s ct = Inr r
           \<and> field r ''recommended_template'' = Some t
           \<and> field t ''filename'' = Some (JStr ''feature.md'')
           \<and> ''fallback_used'' \<notin> set (keys r)"
  using assms(2) unfolding actions_suggest_template_def assms(1)
    actions_get_pr_templates_Inr [OF assms(1)]
  by (simp add: DEFAULT_TEMPLATES_def)

lemma suggest_template_found:
  assumes "select_template ct = (f, b)" and "path_exists st f" and "read_file st f = Inr c"
  shows "field (suggest_template st s ct) ''recommended_template'' = Some (JStr f)"
    and "field (suggest_template st s ct) ''fallback_used'' = Some (JBool b)"
  using assms by (simp_all add: suggest_template_def Let_def update_conv')

text \<open>
  C4, as the claim states it, fails on the second server: \<open>bugfix\<close> is not a key of
  \<open>TYPE_MAPPING\<close>, so the tool recommends \<open>feature.md\<close>, and its result has no
  \<open>fallback_used\<close> entry.
\<close>

theorem bugfix_counterexample:
  "actions_suggest_template sample_read_text ''Fixed crash'' ''bugfix'' =
     Inr (JObj
       [(''recommended_template'',
           JObj [(''filename'', JStr ''feature.md''), (''type'', JStr ''Feature''),
                 (''content'', JStr ''# feature.md'')]),
        (''reasoning'', JStr ''Based on your analysis: 'Fixed crash', this appears to be a bugfix change.''),
        (''template_content'', JStr ''# feature.md''),
        (''usage_hint'', JStr ''Claude can help you fill out this template based on the specific changes in your PR.'')])"
  by code_simp


text \<open>
  C4, amended. The basic server resolves \<open>bugfix\<close>, \<open>fix\<close> and \<open>BUG\<close> to \<open>bug.md\<close> with
  \<open>fallback_used\<close> false, and reports both when \<open>bug.md\<close> can be read. The second
  server, when its templates can be read, recommends \<open>bug.md\<close> for \<open>fix\<close> and \<open>BUG\<close> and
  the default \<open>feature.md\<close> for \<open>bugfix\<close>; its result never has a \<open>fallback_used\<close> entry.
\<close>

theorem bug_synonyms:
  assumes "path_exists st ''bug.md''" and "read_file st ''bug.md'' = Inr c"
    and "actions_get_pr_templates rt = Inr ts"
  shows "(\<forall>ct \<in> {''bugfix'', ''fix'', ''BUG''}.
            select_template ct = (''bug.md'', False)
          \<and> field (suggest_template st s ct) ''recommended_template'' = Some (JStr ''bug.md'')
          \<and> field (suggest_template st s ct) ''fallback_used'' = Some (JBool False))
       \<and> (\<forall>ct \<in> {''fix'', ''BUG''}.
            \<exists>r t. actions_suggest_template rt s ct = Inr r
              \<and> field r ''recommended_template'' = Some t
              \<and> field t ''filename'' = Some (JStr ''bug.md'')
              \<and> ''fallback_used'' \<notin> set (keys r))
       \<and> (\<exists>r t. actions_suggest_template rt s ''bugfix'' = Inr r
              \<and> field r ''recommended_template'' = Some t
              \<and> field t ''filename'' = Some (JStr ''feature.md'')
              \<and> ''fallback_used'' \<notin> set (keys r))"
  using select_bug suggest_template_found [OF select_bug(1) assms(1,2)]
    suggest_template_found [OF select_bug(2) assms(1,2)]
    suggest_template_found [OF select_bug(3) assms(1,2)]
    actions_suggest_fix [OF assms(3) lookup_types(1)]
    actions_suggest_fix [OF assms(3) lookup_types(2)]
    actions_suggest_default [OF assms(3) lookup_types(3)]
  by simp


theorem bug_synonyms_witness:
  "field (suggest_template sample_storage ''Fixed null pointer'' ''fix'')
     ''recommended_template'' = Some (JStr ''bug.md'')
   \<and> field (suggest_template sample_storage ''Fixed null pointer'' ''fix'')
     ''fallback_used'' = Some (JBool False)"
proof -
  have h1: "path_exists sample_storage ''bug.md''"
    by (simp add: sample_storage_def)
  have h2: "read_file sample_storage ''bug.md'' = Inr ''# bug.md''"
    by (simp add: sample_storage_def sample_read_text_def)
  obtain ts where h3: "actions_get_pr_templates sample_read_text = Inr ts"
    by (simp add: actions_get_pr_templates_def DEFAULT_TEMPLATES_def sample_read_text_def)
  show ?thesis
    using bug_synonyms [OF h1 h2 h3, of "''Fixed null pointer''"] by simp
qed

section \<open>The default template\<close>

lemma is_in_sublist: "is_in sub s \<longleftrightarrow> sublist sub s"
  by (induction s) (simp_all add: sublist_Cons_right)

lemma is_in_refl: "is_in s s"
  by (cases s) simp_all

lemma partial_match_None:
  "\<forall>key \<in> set (map fst tbl). \<not> is_in key n \<and> \<not> is_in n key \<Longrightarrow> partial_match tbl n = None"
  by (induction tbl n rule: partial_match.induct) simp_all

lemma lookup_None:
  assumes "\<forall>key \<in> set (map fst tbl). \<not> is_in key n \<and> \<not> is_in n key"
  shows "map_of tbl n = None"
proof (cases "map_of tbl n")
  case None
  then show ?thesis .
next
  case (Some f)
  then have "n \<in> set (map fst tbl)"
    by (metis map_of_eq_None_iff option.distinct(1) set_map)
  with assms have "\<not> is_in n n" by blast
  then show ?thesis by (simp add: is_in_refl)
qed

lemma select_template_default:
  assumes "\<forall>key \<in> set (map fst template_mappings).
             \<not> is_in key (strip (lower ct)) \<and> \<not> is_in (strip (lower ct)) key"
  shows "select_template ct = (''feature.md'', True)"
  using partial_match_None [OF assms] lookup_None [OF assms]
  by (simp add: select_template_def Let_def falsy_def)

text \<open>
  C5, as the claim states it, fails on the second server: for \<open>something-unrecognized\<close>
  it recommends the default \<open>feature.md\<close>, but its result has no \<open>fallback_used\<close> entry.
\<close>

theorem unrecognized_counterexample:
  "actions_suggest_template sample_read_text ''Misc'' ''something-unrecognized'' =
     Inr (JObj
       [(''recommended_template'',
           JObj [(''filename'', JStr ''feature.md''), (''type'', JStr ''Feature''),
                 (''content'', JStr ''# feature.md'')]),
        (''reasoning'', JStr ''Based on your analysis: 'Misc', this appears to be a something-unrecognized change.''),
        (''template_content'', JStr ''# feature.md''),
        (''usage_hint'', JStr ''Claude can help you fill out this template based on the specific changes in your PR.'')])"
  by code_simp

text \<open>
  C5, amended, in two sentences that do not depend on each other. For every change
  type whose normalised form matches no key of \<open>template_mappings\<close> by substring in
  either direction (so not exactly either), the basic server resolves to \<open>feature.md\<close>
  with \<open>fallback_used\<close> true, and reports both when \<open>feature.md\<close> can be read. For every
  change type whose lower-case form is no key of \<open>TYPE_MAPPING\<close>, the second server,
  when its templates can be read, recommends \<open>feature.md\<close> too, and its result has no
  \<open>fallback_used\<close> entry.
\<close>

theorem unrecognized_default:
  "((\<forall>key \<in> set (map fst template_mappings).
        \<not> is_in key (strip (lower ct)) \<and> \<not> is_in (strip (lower ct)) key) \<longrightarrow>
      select_template ct = (''feature.md'', True)
      \<and> (path_exists st ''feature.md'' \<and> read_file st ''feature.md'' = Inr c \<longrightarrow>
           field (suggest_template st s ct) ''recommended_template''
             = Some (JStr ''feature.md'')
           \<and> field (suggest_template st s ct) ''fallback_used'' = Some (JBool True)))
   \<and> (map_of TYPE_MAPPING (lower other_type) = None \<and> actions_get_pr_templates rt = Inr ts \<longrightarrow>
        (\<exists>r t. actions_suggest_template rt other_summary other_type = Inr r
           \<and> field r ''recommended_template'' = Some t
           \<and> field t ''filename'' = Some (JStr ''feature.md'')
           \<and> ''fallback_used'' \<notin> set (keys r)))"
proof -
  have basic: "select_template ct = (''feature.md'', True)
      \<and> (path_exists st ''feature.md'' \<and> read_file st ''feature.md'' = Inr c \<longrightarrow>
           field (suggest_template st s ct) ''recommended_template''
             = Some (JStr ''feature.md'')
           \<and> field (suggest_template st s ct) ''fallback_used'' = Some (JBool True))"
    if a: "\<forall>key \<in> set (map fst template_mappings).
        \<not> is_in key (strip (lower ct)) \<and> \<not> is_in (strip (lower ct)) key"
  proof -
    have sel: "select_template ct = (''feature.md'', True)"
      using a by (rule select_template_default)
    show ?thesis
      using sel suggest_template_found [OF sel, of st c s] by simp
  qed
  have ext: "\<exists>r t. actions_suggest_template rt other_summary other_type = Inr r
           \<and> field r ''recommended_template'' = Some t
           \<and> field t ''filename'' = Some (JStr ''feature.md'')
           \<and> ''fallback_used'' \<notin> set (keys r)"
    if "map_of TYPE_MAPPING (lower other_type) = None" and "actions_get_pr_templates rt = Inr ts"
    using actions_suggest_default [OF that(2) that(1)] .
  from basic ext show ?thesis by blast
qed

theorem unrecognized_default_witness:
  "select_template ''something-unrecognized'' = (''feature.md'', True)
   \<and> field (suggest_template sample_storage ''Misc'' ''something-unrecognized'')
        ''fallback_used'' = Some (JBool True)
   \<and> (\<exists>r t. actions_suggest_template sample_read_text ''Urgent repair'' ''hotfix'' = Inr r
          \<and> field r ''recommended_template'' = Some t
          \<and> field t ''filename'' = Some (JStr ''feature.md'')
          \<and> ''fallback_used'' \<notin> set (keys r))"
proof -
  have h1: "\<forall>key \<in> set (map fst template_mappings).
      \<not> is_in key (strip (lower ''something-unrecognized''))
      \<and> \<not> is_in (strip (lower ''something-unrecognized'')) key"
    by code_simp
  have h2: "path_exists sample_storage ''feature.md''"
    by (simp add: sample_storage_def)
  have h3: "read_file sample_storage ''feature.md'' = Inr ''# feature.md''"
    by (simp add: sample_storage_def sample_read_text_def)
  have h4: "map_of TYPE_MAPPING (lower ''hotfix'') = None"
    by code_simp
  obtain ts where h5: "actions_get_pr_templates sample_read_text = Inr ts"
    by (simp add: actions_get_pr_templates_def DEFAULT_TEMPLATES_def sample_read_text_def)
  from unrecognized_default [where ct = "''something-unrecognized''" and st = sample_storage
      and c = "''# feature.md''" and s = "''Misc''" and other_type = "''hotfix''"
      and rt = sample_read_text and ts = ts and other_summary = "''Urgent repair''"]
    h1 h2 h3 h4 h5
  show ?thesis by blast
qed

section \<open>The first matching key wins\<close>

lemma partial_match_first:
  "i < length tbl \<Longrightarrow>
   is_in (fst (tbl ! i)) n \<or> is_in n (fst (tbl ! i)) \<Longrightarrow>
   \<forall>j < i. \<not> (is_in (fst (tbl ! j)) n \<or> is_in n (fst (tbl ! j))) \<Longrightarrow>
   partial_match tbl n = Some (snd (tbl ! i))"
proof (induction tbl n arbitrary: i rule: partial_match.induct)
  case (1 n)
  then show ?case by simp
next
  case (2 key template_file rest n)
  show ?case
  proof (cases i)
    case 0
    with 2 show ?thesis by simp
  next
    case (Suc i')
    from 2(4) Suc have no: "\<not> (is_in key n \<or> is_in n key)" by fastforce
    have "partial_match rest n = Some (snd (rest ! i'))"
    proof (rule 2(1) [OF no])
      show "i' < length rest" using 2(2) Suc by simp
      show "is_in (fst (rest ! i')) n \<or> is_in n (fst (rest ! i'))" using 2(3) Suc by simp
      show "\<forall>j<i'. \<not> (is_in (fst (rest ! j)) n \<or> is_in n (fst (rest ! j)))"
        using 2(4) Suc by fastforce
    qed
    with no Suc show ?thesis by simp
  qed
qed

lemma template_files_nonempty: "\<forall>kv \<in> set template_mappings. snd kv \<noteq> []"
  by code_simp

text \<open>
  C6. When the exact lookup of the normalised change type fails and keys of
  \<open>template_mappings\<close> match it by substring, in either direction, the basic
  \<open>suggest_template\<close> selects the file of the first such key in the order the table
  declares, with \<open>fallback_used\<close> false.
\<close>

theorem first_match_wins:
  assumes "n = strip (lower ct)"
    and "map_of template_mappings n = None"
    and "i < length template_mappings"
    and "is_in (fst (template_mappings ! i)) n \<or> is_in n (fst (template_mappings ! i))"
    and "\<forall>j < i. \<not> (is_in (fst (template_mappings ! j)) n
                    \<or> is_in n (fst (template_mappings ! j)))"
  shows "select_template ct = (snd (template_mappings ! i), False)"
proof -
  have "partial_match template_mappings n = Some (snd (template_mappings ! i))"
    using assms(3-5) by (rule partial_match_first)
  moreover have "snd (template_mappings ! i) \<noteq> []"
    using template_files_nonempty assms(3) by (meson nth_mem)
  ultimately show ?thesis
    using assms(1,2) by (simp add: select_template_def Let_def falsy_def)
qed

theorem first_match_wins_witness:
  "select_template ''Testing Docs'' = (''docs.md'', False)"
proof -
  have h1: "''testing docs'' = strip (lower ''Testing Docs'')"
    by code_simp
  have h2: "map_of template_mappings ''testing docs'' = None"
    by code_simp
  have h3: "6 < length template_mappings"
    by code_simp
  have h4: "is_in (fst (template_mappings ! 6)) ''testing docs''
            \<or> is_in ''testing docs'' (fst (template_mappings ! 6))"
    by code_simp
  have h5: "\<forall>j < 6. \<not> (is_in (fst (template_mappings ! j)) ''testing docs''
                    \<or> is_in ''testing docs'' (fst (template_mappings ! j)))"
    by code_simp
  have v: "snd (template_mappings ! 6) = ''docs.md''"
    by code_simp
  show ?thesis
    using first_match_wins [OF h1 h2 h3 h4 h5] v by simp
qed

section \<open>No changed files\<close>

text \<open>
  C7. When the name-status subprocess of the basic \<open>analyze_file_changes\<close> succeeds and
  prints nothing (or white space only), the tool returns \<open>files_changed\<close> empty,
  \<open>total_files\<close> zero and \<open>diff\<close> the empty string, whatever \<open>include_diff\<close> is.
\<close>

theorem no_changes:
  assumes "list_roots env = Inr roots"
    and "run_in env [''git'', ''diff'', ''--name-status'', base]
           (if roots \<noteq> [] then hd roots else ''.'') = Inr rf"
    and "returncode rf = 0"
    and "strip (stdout rf) = []"
  shows "analyze_file_changes env base include_diff =
           JObj [(''files_changed'', JList []), (''total_files'', JInt 0), (''diff'', JStr [])]"
  using assms by (simp add: analyze_file_changes_def Let_def)

theorem no_changes_witness:
  "analyze_file_changes sample_clean_env ''main'' True =
     JObj [(''files_changed'', JList []), (''total_files'', JInt 0), (''diff'', JStr [])]"
proof -
  let ?rf = "\<lparr>returncode = 0, stdout = [], stderr = []\<rparr>"
  have h1: "list_roots sample_clean_env = Inr [''/repo'']"
    by (simp add: sample_clean_env_def)
  have h2: "run_in sample_clean_env [''git'', ''diff'', ''--name-status'', ''main'']
              (if [''/repo''] \<noteq> [] then hd [''/repo''] else ''.'') = Inr ?rf"
    by (simp add: sample_clean_env_def)
  have h3: "returncode ?rf = 0"
    by simp
  have h4: "strip (stdout ?rf) = []"
    by (simp add: strip_def)
  show ?thesis
    using no_changes [OF h1 h2 h3 h4] by simp
qed

section \<open>The order of the template listing\<close>

lemma name_key_read_templates:
  "map name_key (read_templates st files acc) = map name_key acc @ map stem files"
  by (induction files arbitrary: acc) (simp_all add: name_key_def split: sum.splits)

lemma length_read_templates:
  "length (read_templates st files acc) = length acc + length files"
  by (induction files arbitrary: acc) (simp_all split: sum.splits)

lemma filenames_actions_read_templates:
  "actions_read_templates rt tbl = Inr us \<Longrightarrow>
   map (\<lambda>t. field t ''filename'') us = map (\<lambda>kv. Some (JStr (fst kv))) tbl"
  by (induction tbl arbitrary: us) (auto split: sum.splits)

text \<open>
  C8, as the claim states it, fails on the second server: its list follows the
  declaration order of \<open>DEFAULT_TEMPLATES\<close>, which is sorted neither by file name nor by
  type (its entries have no \<open>name\<close>).
\<close>

theorem static_order_counterexample:
  "actions_get_pr_templates sample_read_text =
     Inr (JList
       [JObj [(''filename'', JStr ''bug.md''), (''type'', JStr ''Bug Fix''),
              (''content'', JStr ''# bug.md'')],
        JObj [(''filename'', JStr ''feature.md''), (''type'', JStr ''Feature''),
              (''content'', JStr ''# feature.md'')],
        JObj [(''filename'', JStr ''docs.md''), (''type'', JStr ''Documentation''),
              (''content'', JStr ''# docs.md'')],
        JObj [(''filename'', JStr ''refactor.md''), (''type'', JStr ''Refactor''),
              (''content'', JStr ''# refactor.md'')],
        JObj [(''filename'', JStr ''test.md''), (''type'', JStr ''Test''),
              (''content'', JStr ''# test.md'')],
        JObj [(''filename'', JStr ''performance.md''), (''type'', JStr ''Performance''),
              (''content'', JStr ''# performance.md'')],
        JObj [(''filename'', JStr ''security.md''), (''type'', JStr ''Security''),
              (''content'', JStr ''# security.md'')]])
   \<and> \<not> sorted [''bug.md'', ''feature.md'', ''docs.md'', ''refactor.md'', ''test.md'',
                ''performance.md'', ''security.md'']
   \<and> \<not> sorted [''Bug Fix'', ''Feature'', ''Documentation'', ''Refactor'', ''Test'',
                ''Performance'', ''Security'']"
  by code_simp

text \<open>
  C8, amended. Whenever the basic \<open>get_pr_templates\<close> returns a list, the list is sorted
  by \<open>name\<close>, and its names are the stems of the files the directory enumeration yielded,
  one entry per file, whatever the order of the enumeration. The second server lists its
  templates in the declaration order of \<open>DEFAULT_TEMPLATES\<close>.
\<close>

theorem listing_order:
  assumes "get_pr_templates st = JList ts"
    and "actions_get_pr_templates rt = Inr r"
  shows "sorted (map name_key ts)
       \<and> (\<exists>files. glob_md st = Inr files
            \<and> set (map name_key ts) = set (map stem files)
            \<and> length ts = length files)
       \<and> (\<exists>us. r = JList us
            \<and> map (\<lambda>t. field t ''filename'') us
                = map (\<lambda>kv. Some (JStr (fst kv))) DEFAULT_TEMPLATES)"
proof -
  from assms(1) obtain files where g: "glob_md st = Inr files"
    and ts: "ts = sort_key name_key (read_templates st files [])"
    by (auto simp: get_pr_templates_def split: if_splits sum.splits)
  have s: "sorted (map name_key ts)"
    unfolding ts by (rule sorted_sort_key)
  have "set (map name_key ts) = set (map name_key (read_templates st files []))"
    unfolding ts by simp
  then have n: "set (map name_key ts) = set (map stem files)"
    by (simp add: name_key_read_templates)
  have l: "length ts = length files"
    unfolding ts by (simp add: length_read_templates)
  from assms(2) obtain us where us: "actions_read_templates rt DEFAULT_TEMPLATES = Inr us"
    and r: "r = JList us"
    by (auto simp: actions_get_pr_templates_def split: sum.splits)
  from s g n l r filenames_actions_read_templates [OF us] show ?thesis by blast
qed

theorem listing_order_witness:
  "sorted (map name_key
     [JObj [(''filename'', JStr ''bug.md''), (''name'', JStr ''bug''), (''type'', JStr ''bug''),
            (''content'', JStr ''# bug.md'')],
      JObj [(''filename'', JStr ''docs.md''), (''name'', JStr ''docs''), (''type'', JStr ''docs''),
            (''content'', JStr ''# docs.md'')],
      JObj [(''filename'', JStr ''feature.md''), (''name'', JStr ''feature''),
            (''type'', JStr ''feature''), (''content'', JStr ''# feature.md'')]])"
proof -
  have h1: "get_pr_templates sample_storage = JList
     [JObj [(''filename'', JStr ''bug.md''), (''name'', JStr ''bug''), (''type'', JStr ''bug''),
            (''content'', JStr ''# bug.md'')],
      JObj [(''filename'', JStr ''docs.md''), (''name'', JStr ''docs''), (''type'', JStr ''docs''),
            (''content'', JStr ''# docs.md'')],
      JObj [(''filename'', JStr ''feature.md''), (''name'', JStr ''feature''),
            (''type'', JStr ''feature''), (''content'', JStr ''# feature.md'')]]"
    by code_simp
  obtain r where h2: "actions_get_pr_templates sample_read_text = Inr r"
    by (simp add: actions_get_pr_templates_def DEFAULT_TEMPLATES_def sample_read_text_def)
  from listing_order [OF h1 h2] show ?thesis by blast
qed

section \<open>A failing full diff\<close>

text \<open>
  The basic server surfaces the error stream of a failing full diff as \<open>diff_error\<close>,
  beside an empty \<open>diff\<close>.
\<close>

lemma diff_error_surfaced:
  assumes "list_roots env = Inr roots"
    and "run_in env [''git'', ''diff'', ''--name-status'', base]
           (if roots \<noteq> [] then hd roots else ''.'') = Inr rf"
    and "returncode rf = 0"
    and "parse_files (split_on newline (strip (stdout rf))) [] \<noteq> []"
    and "run_in env [''git'', ''diff'', base]
           (if roots \<noteq> [] then hd roots else ''.'') = Inr rd"
    and "returncode rd \<noteq> 0"
  shows "field (analyze_file_changes env base True) ''diff_error'' = Some (JStr (stderr rd))"
    and "field (analyze_file_changes env base True) ''diff'' = Some (JStr [])"
  using assms by (simp_all add: analyze_file_changes_def Let_def update_conv')

text \<open>
  C9. The second server does not: its full-diff call has no \<open>check=True\<close> and its
  \<open>stderr\<close> is never read. When that call exits with status 128 and prints
  \<open>fatal: bad revision\<close> on its error stream, the result has an empty \<open>diff\<close> and no
  entry that carries the error stream.
\<close>

theorem diff_stderr_dropped:
  "actions_analyze_file_changes failing_diff_run ''main'' True 500 =
     JObj [(''base_branch'', JStr ''main''),
           (''files_changed'', JStr ''ok''),
           (''statistics'', JStr ''ok''),
           (''commits'', JStr ''ok''),
           (''diff'', JStr []),
           (''truncated'', JBool False),
           (''total_diff_lines'', JInt 1)]"
  by code_simp

section \<open>A missing template directory\<close>

text \<open>
  The basic \<open>get_pr_templates\<close> answers a missing directory with an \<open>error\<close> entry and
  an empty template list.
\<close>

lemma get_pr_templates_missing_dir:
  "\<not> dir_exists st \<Longrightarrow>
   get_pr_templates st =
     JObj [(''error'', JStr (''Templates directory not found: '' @ templates_dir st)),
           (''templates'', JList [])]"
  by (simp add: get_pr_templates_def)

text \<open>
  C1. The second server has no handler in \<open>get_pr_templates\<close> and \<open>suggest_template\<close>:
  with the template directory missing, the exception of \<open>read_text\<close> leaves both tools.
\<close>

theorem missing_dir_raises:
  "actions_get_pr_templates missing_read_text
     = Inl (OtherError ''[Errno 2] No such file or directory'')
   \<and> actions_suggest_template missing_read_text ''Fixed null pointer'' ''fix''
     = Inl (OtherError ''[Errno 2] No such file or directory'')"
  by code_simp

section \<open>Recent events\<close>

text \<open>
  C10, as the claim states it, fails for a negative limit: with three stored events and
  \<open>limit = -1\<close> the slice \<open>events[:-1]\<close> keeps two events and \<open>showing\<close> is 2, while
  the smaller of \<open>limit\<close> and 3 is \<open>-1\<close>.
\<close>

theorem negative_limit_counterexample:
  "get_recent_actions_events sample_events (- 1) =
     JObj [(''events'', JList [JInt 1, JInt 2]),
           (''total_events'', JInt 3),
           (''showing'', JInt 2)]
   \<and> min (- 1) (3 :: int) = - 1"
  by code_simp

text \<open>
  C10, amended. When the events file exists and parses: a value that is not a list gives
  \<open>events\<close> empty, \<open>total_events\<close> 0 and \<open>showing\<close> 0, with no \<open>error\<close> entry; a list of
  length \<open>n\<close> gives its first \<open>k\<close> elements in stored order, \<open>showing\<close> \<open>k\<close> and
  \<open>total_events\<close> \<open>n\<close>, where \<open>k\<close> is the smaller of \<open>limit\<close> and \<open>n\<close> for a limit that is
  not negative, and \<open>n + limit\<close>, or 0 if that is negative, for a negative limit.
\<close>

theorem recent_events:
  assumes "events_exists ef" and "events_load ef = Inr v"
  shows "get_recent_actions_events ef limit =
     (case v of
        JList es \<Rightarrow>
          (let k = (if 0 \<le> limit then min (nat limit) (length es)
                    else length es - nat (- limit))
           in JObj [(''events'', JList (take k es)),
                    (''total_events'', JInt (int (length es))),
                    (''showing'', JInt (int k))])
      | _ \<Rightarrow> JObj [(''events'', JList []), (''total_events'', JInt 0), (''showing'', JInt 0)])"
  using assms
  by (cases v) (auto simp add: get_recent_actions_events_def slice_to_def Let_def min_def)

theorem recent_events_witness:
  "get_recent_actions_events sample_events 2 =
     JObj [(''events'', JList [JInt 1, JInt 2]),
           (''total_events'', JInt 3),
           (''showing'', JInt 2)]"
proof -
  have h1: "events_exists sample_events"
    by (simp add: sample_events_def)
  have h2: "events_load sample_events = Inr (JList [JInt 1, JInt 2, JInt 3])"
    by (simp add: sample_events_def)
  show ?thesis
    using recent_events [OF h1 h2, of 2] by (simp add: Let_def)
qed

end
